theory Spec2Isabelle
  imports Complex_Main "HOL-Library.Sublist" "HOL-Library.Multiset"
begin

text \<open>
  ClassTrack keeps courses and assignments on a server and shows them in the browser.
  This theory embeds the browser's helper functions (overdue and due-soon state,
  priority info, filtering, sorting, progress percentage) with the JavaScript semantics
  they rest on, and the two store operations the specification describes for the
  server. The definitions come first, the properties after them.

  Names follow the source. Where a source name is taken in Isabelle it is changed:
  \<open>total'\<close> for \<open>total\<close>, \<open>sorted_arr\<close> for \<open>sorted\<close>, \<open>cls\<close> for \<open>class\<close>,
  \<open>assignment_id\<close> for \<open>id\<close>, \<open>String_includes\<close> for \<open>includes\<close>.
\<close>

section \<open>JavaScript numbers\<close>

text \<open>
  The helpers compute with JavaScript numbers, which are IEEE 754 binary64 values.
  A finite number is modelled by the rational it denotes. Integers of magnitude below
  \<open>2 ^ 53\<close> are exact, and so are their sums and differences in that range; these are
  written as \<open>int\<close>. A division or a multiplication rounds its exact result to the
  nearest binary64 value, ties to the even significand: that is \<open>fl\<close>. The exponent
  range is not modelled (no overflow, no subnormal numbers): every quotient below is far
  inside it.
\<close>

definition pow2 :: "int \<Rightarrow> rat" where
  "pow2 k = (if 0 \<le> k then 2 ^ nat k else 1 / 2 ^ nat (- k))"

function bitLength :: "int \<Rightarrow> int" where
  "bitLength n = (if n \<le> 0 then 0 else 1 + bitLength (n div 2))"
  by pat_completeness auto
termination
  by (relation "measure nat") auto

definition ilog2 :: "rat \<Rightarrow> int" where
  \<comment> \<open>for \<open>0 < x\<close>: the \<open>e\<close> with \<open>2 ^ e \<le> x < 2 ^ (e + 1)\<close>\<close>
  "ilog2 x = (let (a, b) = quotient_of x; d = bitLength a - bitLength b
              in if pow2 d \<le> x then d else d - 1)"

definition roundTiesToEven :: "rat \<Rightarrow> int" where
  "roundTiesToEven x = (let f = \<lfloor>x\<rfloor>; d = x - of_int f in
     if d < 1 / 2 then f else if 1 / 2 < d then f + 1 else if even f then f else f + 1)"

definition fl :: "rat \<Rightarrow> rat" where
  \<comment> \<open>the binary64 value nearest to \<open>x\<close>: 53 significant bits\<close>
  "fl x = (if x = 0 then 0 else
     let u = pow2 (ilog2 \<bar>x\<bar> - 52) in of_int (roundTiesToEven (x / u)) * u)"

definition Math_round :: "rat \<Rightarrow> int" where
  \<comment> \<open>\<open>Math.round\<close>: the nearest integer, a tie going up\<close>
  "Math_round x = \<lfloor>x + 1 / 2\<rfloor>"

definition Math_ceil :: "rat \<Rightarrow> int" where
  "Math_ceil x = \<lceil>x\<rceil>"

section \<open>JavaScript dates\<close>

text \<open>
  A \<open>Date\<close> holds a time value: milliseconds since 1970-01-01T00:00:00Z. The host's time
  zone is the function \<open>LocalTZA\<close> of ECMA-262: \<open>tz t True\<close> is the offset of local time
  from UTC at the UTC time value \<open>t\<close>, and \<open>tz t False\<close> the offset at the local time
  value \<open>t\<close>. \<open>new Date()\<close> is the time value \<open>now\<close> of the clock.

  A due date is a date-only ISO string \<open>YYYY-MM-DD\<close> (so the helpers' doc comments
  say; it is the value of the form's date input). It is represented by its day number,
  the days from 1970-01-01 to that date.
  ECMA-262 reads a date-only string as UTC, so \<open>new Date(dueDate)\<close> is midnight UTC of
  that day.
\<close>

type_synonym zone = "int \<Rightarrow> bool \<Rightarrow> int"

definition msPerHour :: int where
  "msPerHour = 1000 * 60 * 60"

definition msPerDay :: int where
  "msPerDay = 1000 * 60 * 60 * 24"

definition Day :: "int \<Rightarrow> int" where
  "Day t = t div msPerDay"

definition LocalTime :: "zone \<Rightarrow> int \<Rightarrow> int" where
  "LocalTime tz t = t + tz t True"

definition UTC :: "zone \<Rightarrow> int \<Rightarrow> int" where
  "UTC tz t = t - tz t False"

definition Date_parse :: "int \<Rightarrow> int" where
  \<comment> \<open>\<open>new Date(dueDate)\<close> for the date-only string of day number \<open>d\<close>\<close>
  "Date_parse d = d * msPerDay"

definition setHours0 :: "zone \<Rightarrow> int \<Rightarrow> int" where
  \<comment> \<open>\<open>date.setHours(0, 0, 0, 0)\<close>: midnight, local time, of the local day of \<open>t\<close>\<close>
  "setHours0 tz t = UTC tz (Day (LocalTime tz t) * msPerDay + 0)"

definition localDate :: "zone \<Rightarrow> int \<Rightarrow> int" where
  \<comment> \<open>the calendar date, as a day number, that the time value \<open>t\<close> has in local time\<close>
  "localDate tz t = Day (LocalTime tz t)"

definition fixedZone :: "int \<Rightarrow> zone" where
  \<comment> \<open>a zone that keeps one offset all year\<close>
  "fixedZone off = (\<lambda>t isUTC. off)"

definition springForward :: "int \<Rightarrow> int \<Rightarrow> zone" where
  \<comment> \<open>a zone of standard offset \<open>off\<close> whose clocks go one hour forward at the UTC
      time value \<open>T\<close>; a local time inside the skipped hour takes the offset before it\<close>
  "springForward off T = (\<lambda>t isUTC.
     if isUTC then (if t < T then off else off + msPerHour)
     else (if t < T + off + msPerHour then off else off + msPerHour))"

text \<open>
  Calendar dates as day numbers (\<open>MakeDay\<close> of ECMA-262, with months counted from 1),
  to write the dates and times of the examples: \<open>dayNumber 2024 1 10\<close> is the due date
  \<open>2024-01-10\<close>, and \<open>utcTime 2024 1 10 17 0\<close> the time value of 2024-01-10T17:00Z.
\<close>

definition DayFromYear :: "int \<Rightarrow> int" where
  "DayFromYear y =
     365 * (y - 1970) + (y - 1969) div 4 - (y - 1901) div 100 + (y - 1601) div 400"

definition InLeapYear :: "int \<Rightarrow> bool" where
  "InLeapYear y = (y mod 4 = 0 \<and> (y mod 100 \<noteq> 0 \<or> y mod 400 = 0))"

definition daysBeforeMonth :: "int \<Rightarrow> int \<Rightarrow> int" where
  "daysBeforeMonth y m =
     [0, 31, 59, 90, 120, 151, 181, 212, 243, 273, 304, 334] ! nat ((m - 1) mod 12)
       + (if InLeapYear y \<and> 2 < m then 1 else 0)"

definition dayNumber :: "int \<Rightarrow> int \<Rightarrow> int \<Rightarrow> int" where
  "dayNumber y m d = DayFromYear y + daysBeforeMonth y m + (d - 1)"

definition utcTime :: "int \<Rightarrow> int \<Rightarrow> int \<Rightarrow> int \<Rightarrow> int \<Rightarrow> int" where
  "utcTime y m d hour minute =
     dayNumber y m d * msPerDay + hour * msPerHour + minute * (1000 * 60)"

definition fiveHoursWest :: zone where
  \<comment> \<open>UTC-05:00 all year, as in Bogota or Lima\<close>
  "fiveHoursWest = fixedZone (- 5 * msPerHour)"

definition easternTime2024 :: zone where
  \<comment> \<open>UTC-05:00 until the clocks go forward on 2024-03-10 at 07:00Z, as in New York\<close>
  "easternTime2024 = springForward (- 5 * msPerHour) (utcTime 2024 3 10 7 0)"

section \<open>Derived state of an assignment\<close>

definition daysUntilDue :: "zone \<Rightarrow> int \<Rightarrow> int \<Rightarrow> int" where
  "daysUntilDue tz now dueDate =
     (let today = setHours0 tz now;
          due = setHours0 tz (Date_parse dueDate);
          diffTime = due - today;
          diffDays = Math_ceil (fl (of_int diffTime / of_int msPerDay))
      in diffDays)"

definition isOverdue :: "zone \<Rightarrow> int \<Rightarrow> int \<Rightarrow> bool \<Rightarrow> bool" where
  "isOverdue tz now dueDate completed =
     (if completed then False else daysUntilDue tz now dueDate < 0)"

definition isDueSoon :: "zone \<Rightarrow> int \<Rightarrow> int \<Rightarrow> bool \<Rightarrow> bool" where
  "isDueSoon tz now dueDate completed =
     (if completed then False
      else let days = daysUntilDue tz now dueDate in 0 \<le> days \<and> days \<le> 3)"

section \<open>Progress percentage\<close>

definition calculateProgress :: "int \<Rightarrow> int \<Rightarrow> int" where
  "calculateProgress completed total' =
     (if total' = 0 then 0
      else Math_round (fl (fl (of_int completed / of_int total') * 100)))"

section \<open>Objects and strings\<close>

text \<open>
  A property read \<open>obj[key]\<close> on an object literal finds the literal's own properties
  first and then those of \<open>Object.prototype\<close>, whose values are functions (and, for
  \<open>__proto__\<close>, an object): truthy values that are not numbers. A key found in neither
  reads as \<open>undefined\<close>.
\<close>

datatype 'v property = Own 'v | Inherited string | Undefined

definition Object_prototype_names :: "string list" where
  "Object_prototype_names =
     [''constructor'', ''hasOwnProperty'', ''isPrototypeOf'', ''propertyIsEnumerable'',
      ''toLocaleString'', ''toString'', ''valueOf'', ''__proto__'',
      ''__defineGetter__'', ''__defineSetter__'', ''__lookupGetter__'', ''__lookupSetter__'']"

definition Get :: "(string \<times> 'v) list \<Rightarrow> string \<Rightarrow> 'v property" where
  "Get props key =
     (case map_of props key of
        Some v \<Rightarrow> Own v
      | None \<Rightarrow> if key \<in> set Object_prototype_names then Inherited key else Undefined)"

definition ToPropertyKey :: "string option \<Rightarrow> string" where
  \<comment> \<open>the key of a string, or of \<open>undefined\<close> (here \<open>None\<close>)\<close>
  "ToPropertyKey v = (case v of None \<Rightarrow> ''undefined'' | Some s \<Rightarrow> s)"

definition ToNumber :: "int property \<Rightarrow> int option" where
  \<comment> \<open>\<open>None\<close> is \<open>NaN\<close>: the number of \<open>undefined\<close>, of a function or of a plain object\<close>
  "ToNumber v = (case v of Own n \<Rightarrow> Some n | Inherited k \<Rightarrow> None | Undefined \<Rightarrow> None)"

text \<open>
  Strings are lists of characters and hold ASCII text: \<open>toLowerCase\<close> maps the letters
  \<open>A\<close> to \<open>Z\<close>, and \<open>parseInt\<close> skips the ASCII white space.
\<close>

definition lowerChar :: "char \<Rightarrow> char" where
  "lowerChar c = (let n = (of_char c :: nat) in if 65 \<le> n \<and> n \<le> 90 then char_of (n + 32) else c)"

definition toLowerCase :: "string \<Rightarrow> string" where
  "toLowerCase s = map lowerChar s"

fun String_includes :: "string \<Rightarrow> string \<Rightarrow> bool" where
  "String_includes [] sub = (sub = [])"
| "String_includes (c # cs) sub = (prefix sub (c # cs) \<or> String_includes cs sub)"

definition isWhiteSpace :: "char \<Rightarrow> bool" where
  "isWhiteSpace c = ((of_char c :: nat) \<in> {9, 10, 11, 12, 13, 32})"

definition digitValue :: "char \<Rightarrow> int" where
  "digitValue c = (let n = (of_char c :: int) in
     if 48 \<le> n \<and> n \<le> 57 then n - 48
     else if 97 \<le> n \<and> n \<le> 122 then n - 87
     else if 65 \<le> n \<and> n \<le> 90 then n - 55
     else 36)"

definition parseInt :: "string \<Rightarrow> int option" where
  \<comment> \<open>\<open>parseInt(s)\<close> with no radix argument; \<open>None\<close> is \<open>NaN\<close>\<close>
  "parseInt s =
     (let s1 = dropWhile isWhiteSpace s;
          sign = (if take 1 s1 = ''-'' then - 1 else 1);
          s2 = (if take 1 s1 = ''-'' \<or> take 1 s1 = ''+'' then drop 1 s1 else s1);
          hex = (take 2 s2 = ''0x'' \<or> take 2 s2 = ''0X'');
          R = (if hex then 16 else 10);
          s3 = (if hex then drop 2 s2 else s2);
          ds = takeWhile (\<lambda>c. digitValue c < R) s3
      in if ds = [] then None
         else Some (sign * foldl (\<lambda>acc c. acc * R + digitValue c) 0 ds))"

section \<open>Priority display info\<close>

record priority_info =
  cls :: string
  label :: string
  order :: int

definition priorities :: "(string \<times> priority_info) list" where
  "priorities =
     [(''high'', \<lparr>cls = ''priority-high'', label = ''High'', order = 1\<rparr>),
      (''medium'', \<lparr>cls = ''priority-medium'', label = ''Medium'', order = 2\<rparr>),
      (''low'', \<lparr>cls = ''priority-low'', label = ''Low'', order = 3\<rparr>)]"

definition truthy :: "'v property \<Rightarrow> bool" where
  \<comment> \<open>the values here are objects and functions, or \<open>undefined\<close>\<close>
  "truthy v = (v \<noteq> Undefined)"

definition getPriorityInfo :: "string option \<Rightarrow> priority_info property" where
  "getPriorityInfo priority =
     (let v = Get priorities (ToPropertyKey priority)
      in if truthy v then v else Get priorities ''medium'')"

section \<open>Assignments, filters and sorting\<close>

text \<open>
  An assignment as the views receive it: the stored fields and the name and code of its
  course. \<open>description\<close>, \<open>courseName\<close> and \<open>courseCode\<close> may be absent (\<open>null\<close>).
\<close>

record assignment =
  assignment_id :: int
  courseId :: int
  title :: string
  description :: "string option"
  dueDate :: int
  priority :: string
  points :: int
  completed :: bool
  courseName :: "string option"
  courseCode :: "string option"

text \<open>
  The filter object holds the values of three form controls; a property may be absent.
\<close>

record filters =
  filter_courseId :: "string option"
  filter_status :: "string option"
  filter_search :: "string option"

definition sameCourse :: "string \<Rightarrow> assignment \<Rightarrow> bool" where
  \<comment> \<open>\<open>(a) => a.courseId === parseInt(filters.courseId)\<close>\<close>
  "sameCourse c a = (parseInt c = Some (courseId a))"

definition fieldIncludes :: "string option \<Rightarrow> string \<Rightarrow> bool" where
  \<comment> \<open>\<open>field && field.toLowerCase().includes(searchLower)\<close>\<close>
  "fieldIncludes field searchLower =
     (case field of None \<Rightarrow> False
      | Some s \<Rightarrow> if s = [] then False else String_includes (toLowerCase s) searchLower)"

definition matchesSearch :: "string \<Rightarrow> assignment \<Rightarrow> bool" where
  "matchesSearch searchLower a =
     (String_includes (toLowerCase (title a)) searchLower
      \<or> fieldIncludes (description a) searchLower
      \<or> fieldIncludes (courseName a) searchLower)"

definition filterAssignments :: "assignment list \<Rightarrow> filters \<Rightarrow> assignment list" where
  \<comment> \<open>an absent or empty string is falsy\<close>
  "filterAssignments assignments fs =
     (let filtered = assignments;
          filtered = (case filter_courseId fs of
                        None \<Rightarrow> filtered
                      | Some c \<Rightarrow> if c = [] then filtered else filter (sameCourse c) filtered);
          filtered = (if filter_status fs = Some ''completed''
                      then filter (\<lambda>a. completed a) filtered
                      else if filter_status fs = Some ''incomplete''
                      then filter (\<lambda>a. \<not> completed a) filtered
                      else filtered);
          filtered = (case filter_search fs of
                        None \<Rightarrow> filtered
                      | Some s \<Rightarrow> if s = [] then filtered
                                  else let searchLower = toLowerCase s
                                       in filter (matchesSearch searchLower) filtered)
      in filtered)"

subsection \<open>Sorting\<close>

text \<open>
  \<open>Array.prototype.sort(comparefn)\<close> sorts the array in place and is stable; a
  comparison that yields \<open>NaN\<close> counts as \<open>+0\<close>. The order of the comparisons is left to
  the implementation; the model inserts each element, from the last to the first, in
  front of the sorted rest, after the elements that must precede it.
\<close>

definition SortCompare :: "('a \<Rightarrow> 'a \<Rightarrow> int option) \<Rightarrow> 'a \<Rightarrow> 'a \<Rightarrow> int" where
  "SortCompare comparefn x y = (case comparefn x y of None \<Rightarrow> 0 | Some v \<Rightarrow> v)"

fun insertSorted :: "('a \<Rightarrow> 'a \<Rightarrow> int option) \<Rightarrow> 'a \<Rightarrow> 'a list \<Rightarrow> 'a list" where
  "insertSorted comparefn x [] = [x]"
| "insertSorted comparefn x (y # ys) =
     (if SortCompare comparefn x y \<le> 0 then x # y # ys
      else y # insertSorted comparefn x ys)"

definition Array_sort :: "('a \<Rightarrow> 'a \<Rightarrow> int option) \<Rightarrow> 'a list \<Rightarrow> 'a list" where
  "Array_sort comparefn xs = foldr (insertSorted comparefn) xs []"

definition minus_number :: "int option \<Rightarrow> int option \<Rightarrow> int option" where
  \<comment> \<open>subtraction of numbers; \<open>None\<close> is \<open>NaN\<close>\<close>
  "minus_number x y =
     (case x of None \<Rightarrow> None
      | Some m \<Rightarrow> (case y of None \<Rightarrow> None | Some n \<Rightarrow> Some (m - n)))"

definition priorityOrder :: "(string \<times> int) list" where
  "priorityOrder = [(''high'', 1), (''medium'', 2), (''low'', 3)]"

definition byDueDate :: "assignment \<Rightarrow> assignment \<Rightarrow> int option" where
  \<comment> \<open>\<open>(a, b) => new Date(a.dueDate) - new Date(b.dueDate)\<close>\<close>
  "byDueDate a b = Some (Date_parse (dueDate a) - Date_parse (dueDate b))"

definition byPriority :: "assignment \<Rightarrow> assignment \<Rightarrow> int option" where
  \<comment> \<open>\<open>(a, b) => priorityOrder[a.priority] - priorityOrder[b.priority]\<close>\<close>
  "byPriority a b =
     minus_number (ToNumber (Get priorityOrder (priority a)))
                  (ToNumber (Get priorityOrder (priority b)))"

definition byPoints :: "assignment \<Rightarrow> assignment \<Rightarrow> int option" where
  \<comment> \<open>\<open>(a, b) => b.points - a.points\<close>\<close>
  "byPoints a b = Some (points b - points a)"

definition sortAssignments :: "assignment list \<Rightarrow> string \<Rightarrow> assignment list" where
  "sortAssignments assignments sortBy =
     (let sorted_arr = assignments
      in if sortBy = ''dueDate'' then Array_sort byDueDate sorted_arr
         else if sortBy = ''priority'' then Array_sort byPriority sorted_arr
         else if sortBy = ''points'' then Array_sort byPoints sorted_arr
         else Array_sort byDueDate sorted_arr)"

subsection \<open>Arrays in memory\<close>

text \<open>
  To say what the two functions do to the array they are given, arrays live in a
  memory: the array at address \<open>p\<close> is \<open>h ! p\<close>, and a new array takes the next free
  address. The spread \<open>[...arr]\<close> and \<open>arr.filter(f)\<close> build a new array; \<open>arr.sort(f)\<close>
  overwrites the array it is called on. The assignment objects are shared by the arrays
  and are not written to. Spreading a reference that is no array throws (\<open>None\<close>).
\<close>

type_synonym heap = "assignment list list"

definition spread :: "heap \<Rightarrow> nat \<Rightarrow> (nat \<times> heap) option" where
  "spread h p = (if p < length h then Some (length h, h @ [h ! p]) else None)"

definition Array_filter_new :: "heap \<Rightarrow> nat \<Rightarrow> (assignment \<Rightarrow> bool) \<Rightarrow> nat \<times> heap" where
  "Array_filter_new h p f = (length h, h @ [filter f (h ! p)])"

definition Array_sort_in_place ::
    "heap \<Rightarrow> nat \<Rightarrow> (assignment \<Rightarrow> assignment \<Rightarrow> int option) \<Rightarrow> heap" where
  "Array_sort_in_place h p comparefn = h[p := Array_sort comparefn (h ! p)]"

definition sortAssignments_heap :: "heap \<Rightarrow> nat \<Rightarrow> string \<Rightarrow> (nat \<times> heap) option" where
  "sortAssignments_heap h assignments sortBy =
     (case spread h assignments of
        None \<Rightarrow> None
      | Some (sorted_arr, h1) \<Rightarrow>
          Some (sorted_arr,
                if sortBy = ''dueDate'' then Array_sort_in_place h1 sorted_arr byDueDate
                else if sortBy = ''priority'' then Array_sort_in_place h1 sorted_arr byPriority
                else if sortBy = ''points'' then Array_sort_in_place h1 sorted_arr byPoints
                else Array_sort_in_place h1 sorted_arr byDueDate))"

definition filterAssignments_heap :: "heap \<Rightarrow> nat \<Rightarrow> filters \<Rightarrow> (nat \<times> heap) option" where
  "filterAssignments_heap h assignments fs =
     (case spread h assignments of
        None \<Rightarrow> None
      | Some (filtered, h1) \<Rightarrow>
          (let (filtered, h2) =
                 (case filter_courseId fs of
                    None \<Rightarrow> (filtered, h1)
                  | Some c \<Rightarrow> if c = [] then (filtered, h1)
                              else Array_filter_new h1 filtered (sameCourse c));
               (filtered, h3) =
                 (if filter_status fs = Some ''completed''
                  then Array_filter_new h2 filtered (\<lambda>a. completed a)
                  else if filter_status fs = Some ''incomplete''
                  then Array_filter_new h2 filtered (\<lambda>a. \<not> completed a)
                  else (filtered, h2));
               (filtered, h4) =
                 (case filter_search fs of
                    None \<Rightarrow> (filtered, h3)
                  | Some s \<Rightarrow> if s = [] then (filtered, h3)
                              else let searchLower = toLowerCase s
                                   in Array_filter_new h3 filtered (matchesSearch searchLower))
           in Some (filtered, h4)))"

section \<open>What the specification says of the filter and of the sort key\<close>

text \<open>
  These definitions follow the words of the specification, for comparison with the
  code above.
\<close>

definition containsIgnoringCase :: "string \<Rightarrow> string \<Rightarrow> bool" where
  \<comment> \<open>case-insensitive substring match of \<open>s\<close> in \<open>field\<close>\<close>
  "containsIgnoringCase s field = sublist (toLowerCase s) (toLowerCase field)"

definition fieldContains :: "string \<Rightarrow> string option \<Rightarrow> bool" where
  "fieldContains s field = (case field of None \<Rightarrow> False | Some t \<Rightarrow> containsIgnoringCase s t)"

definition spec_search :: "string \<Rightarrow> assignment \<Rightarrow> bool" where
  \<comment> \<open>a match in the title, the description, the course name or the course code\<close>
  "spec_search s a =
     (containsIgnoringCase s (title a) \<or> fieldContains s (description a)
      \<or> fieldContains s (courseName a) \<or> fieldContains s (courseCode a))"

definition code_search :: "string \<Rightarrow> assignment \<Rightarrow> bool" where
  \<comment> \<open>a match in the title, the description or the course name\<close>
  "code_search s a =
     (containsIgnoringCase s (title a) \<or> fieldContains s (description a)
      \<or> fieldContains s (courseName a))"

definition courseCriterion :: "filters \<Rightarrow> assignment \<Rightarrow> bool" where
  "courseCriterion fs a =
     (case filter_courseId fs of None \<Rightarrow> True
      | Some c \<Rightarrow> c = [] \<or> parseInt c = Some (courseId a))"

definition statusCriterion :: "filters \<Rightarrow> assignment \<Rightarrow> bool" where
  "statusCriterion fs a =
     (if filter_status fs = Some ''completed'' then completed a
      else if filter_status fs = Some ''incomplete'' then \<not> completed a
      else True)"

definition searchCriterion :: "filters \<Rightarrow> assignment \<Rightarrow> bool" where
  "searchCriterion fs a =
     (case filter_search fs of None \<Rightarrow> True
      | Some s \<Rightarrow> s = [] \<or> code_search s a)"

definition priorityRank :: "string \<Rightarrow> int" where
  \<comment> \<open>high = 1, medium = 2, low = 3; the rank of another string is not specified\<close>
  "priorityRank p = (if p = ''high'' then 1 else if p = ''medium'' then 2 else 3)"

section \<open>The store and its managers\<close>

text \<open>
  Modelled from the spec: the store, its three tables and the error kinds. The course
  and assignment managers run on the server, whose code is not among the sources; the
  client only calls them (\<open>deleteCourseAPI\<close>, \<open>toggleAssignmentCompleteAPI\<close>). The
  data model and the two operations below are written from the specification.
\<close>

datatype error = ValidationError | NotFoundError | IntegrityError | StoreError

datatype field_value = BoolValue bool | IntValue int | StringValue string

record Course =
  c_id :: int
  c_name :: string
  c_code :: string
  c_color :: string
  c_credits :: int
  c_semester :: string

record Assignment =
  a_id :: int
  a_courseId :: int
  a_title :: string
  a_description :: "string option"
  a_dueDate :: int
  a_priority :: string
  a_points :: int
  a_completed :: bool
  a_completedAt :: "int option"

record HistoryEntry =
  h_id :: int
  h_assignmentId :: int
  h_field :: string
  h_previous :: field_value
  h_new :: field_value
  h_timestamp :: int

record store =
  st_courses :: "Course list"
  st_assignments :: "Assignment list"
  st_history :: "HistoryEntry list"

text \<open>
  Modelled from the spec: the id of a new history entry. The store assigns each entry a
  unique id; its source is missing, and the next id is taken above all those in use.
\<close>

definition nextHistoryId :: "HistoryEntry list \<Rightarrow> int" where
  "nextHistoryId es = foldr max (map h_id es) 0 + 1"

text \<open>
  Modelled from the spec: the change \<open>toggleComplete\<close> makes to an assignment (the
  source of the assignment manager is missing). It flips \<open>completed\<close>, sets
  \<open>completedAt\<close> to the current time when becoming true and clears it when becoming
  false.
\<close>

definition toggle :: "int \<Rightarrow> Assignment \<Rightarrow> Assignment" where
  "toggle now a =
     a\<lparr>a_completed := \<not> a_completed a,
       a_completedAt := (if \<not> a_completed a then Some now else None)\<rparr>"

text \<open>
  Modelled from the spec: \<open>toggleComplete(id)\<close> of the assignment manager, whose source
  is missing. It flips the flag of the stored assignment and appends one history entry
  recording the transition of the field \<open>completed\<close>, in one atomic write. An id that
  is not stored is a \<open>NotFoundError\<close>, as for the sibling operations, and leaves the
  store as it was.
\<close>

definition toggleComplete :: "int \<Rightarrow> int \<Rightarrow> store \<Rightarrow> (error + unit) \<times> store" where
  "toggleComplete i now s =
     (case find (\<lambda>a. a_id a = i) (st_assignments s) of
        None \<Rightarrow> (Inl NotFoundError, s)
      | Some a \<Rightarrow>
          (Inr (),
           s\<lparr>st_assignments := map (\<lambda>x. if a_id x = i then toggle now x else x) (st_assignments s),
             st_history := st_history s @
               [\<lparr>h_id = nextHistoryId (st_history s), h_assignmentId = i,
                 h_field = ''completed'',
                 h_previous = BoolValue (a_completed a),
                 h_new = BoolValue (\<not> a_completed a),
                 h_timestamp = now\<rparr>]\<rparr>))"

text \<open>
  Modelled from the spec: \<open>deleteCourse(id)\<close> of the course manager, whose source is
  missing. It fails with \<open>NotFoundError\<close> if the course is absent; otherwise it deletes
  the course, every assignment referencing it and every history entry referencing those
  assignments, in one atomic write.
\<close>

definition deleteCourse :: "int \<Rightarrow> store \<Rightarrow> (error + unit) \<times> store" where
  "deleteCourse i s =
     (if \<not> (\<exists>c \<in> set (st_courses s). c_id c = i) then (Inl NotFoundError, s)
      else
        (let gone = map a_id (filter (\<lambda>a. a_courseId a = i) (st_assignments s))
         in (Inr (),
             s\<lparr>st_courses := filter (\<lambda>c. c_id c \<noteq> i) (st_courses s),
               st_assignments := filter (\<lambda>a. a_courseId a \<noteq> i) (st_assignments s),
               st_history := filter (\<lambda>e. h_assignmentId e \<notin> set gone) (st_history s)\<rparr>)))"

definition referencesResolve :: "store \<Rightarrow> bool" where
  \<comment> \<open>every assignment references a stored course, every history entry a stored assignment\<close>
  "referencesResolve s =
     ((\<forall>a \<in> set (st_assignments s). \<exists>c \<in> set (st_courses s). c_id c = a_courseId a)
      \<and> (\<forall>e \<in> set (st_history s). \<exists>a \<in> set (st_assignments s). a_id a = h_assignmentId e))"

section \<open>Example data\<close>

definition essay :: assignment where
  "essay = \<lparr>assignment_id = 1, courseId = 1, title = ''Essay'', description = None,
     dueDate = dayNumber 2024 1 10, priority = ''high'', points = 100, completed = False,
     courseName = Some ''Composition'', courseCode = Some ''ENG101''\<rparr>"

definition quiz :: assignment where
  "quiz = \<lparr>assignment_id = 2, courseId = 2, title = ''Quiz 3'',
     description = Some ''Chapters 4 to 6'',
     dueDate = dayNumber 2024 1 14, priority = ''low'', points = 50, completed = True,
     courseName = Some ''Calculus'', courseCode = Some ''MATH112''\<rparr>"

definition readingLog :: assignment where
  "readingLog = \<lparr>assignment_id = 3, courseId = 1, title = ''Reading log'',
     description = Some [],
     dueDate = dayNumber 2024 1 8, priority = ''medium'', points = 20, completed = True,
     courseName = Some ''Composition'', courseCode = Some ''ENG101''\<rparr>"

definition problemSet :: assignment where
  "problemSet = \<lparr>assignment_id = 4, courseId = 2, title = ''Problem set'',
     description = Some ''Integration by parts'',
     dueDate = dayNumber 2024 1 10, priority = ''high'', points = 50, completed = False,
     courseName = Some ''Calculus'', courseCode = Some ''MATH112''\<rparr>"

definition essayRow :: Assignment where
  "essayRow = \<lparr>a_id = 1, a_courseId = 1, a_title = ''Essay'', a_description = None,
     a_dueDate = dayNumber 2024 1 10, a_priority = ''high'', a_points = 100, a_completed = False,
     a_completedAt = None\<rparr>"

definition quizRow :: Assignment where
  "quizRow = \<lparr>a_id = 2, a_courseId = 2, a_title = ''Quiz 3'',
     a_description = Some ''Chapters 4 to 6'', a_dueDate = dayNumber 2024 1 14, a_priority = ''low'',
     a_points = 50, a_completed = True, a_completedAt = Some (utcTime 2024 1 10 17 0)\<rparr>"

definition demoStore :: store where
  "demoStore =
     \<lparr>st_courses =
        [\<lparr>c_id = 1, c_name = ''Composition'', c_code = ''ENG101'', c_color = ''#3498db'',
          c_credits = 3, c_semester = ''Fall 2024''\<rparr>,
         \<lparr>c_id = 2, c_name = ''Calculus'', c_code = ''MATH112'', c_color = ''#e74c3c'',
          c_credits = 4, c_semester = ''Fall 2024''\<rparr>],
      st_assignments = [essayRow, quizRow],
      st_history =
        [\<lparr>h_id = 1, h_assignmentId = 2, h_field = ''completed'',
          h_previous = BoolValue False, h_new = BoolValue True,
          h_timestamp = utcTime 2024 1 10 17 0\<rparr>]\<rparr>"

section \<open>Properties of the number model\<close>

text \<open>
  An integer below \<open>2 ^ 53\<close> in magnitude is a binary64 value: rounding leaves it as
  it is.
\<close>

lemma bitLength_le:
  "0 < n \<Longrightarrow> n < 2 ^ m \<Longrightarrow> bitLength n \<le> int m"
proof (induction m arbitrary: n)
  case 0
  then show ?case by simp
next
  case (Suc m)
  show ?case
  proof (cases "n div 2 \<le> 0")
    case True
    with Suc.prems show ?thesis
      by (subst bitLength.simps) (simp add: bitLength.simps [of "n div 2"])
  next
    case False
    then have "0 < n div 2" by simp
    moreover have "n div 2 < 2 ^ m" using Suc.prems by simp
    ultimately have "bitLength (n div 2) \<le> int m" by (rule Suc.IH)
    with Suc.prems show ?thesis by (subst bitLength.simps) simp
  qed
qed

lemma ilog2_of_int_le:
  assumes "0 < k" "k < 2 ^ 53"
  shows "ilog2 (of_int k) \<le> 52"
proof -
  have "bitLength k \<le> 53"
    using bitLength_le [OF assms(1), of 53] assms(2) by simp
  moreover have "bitLength 1 = 1"
    by (simp add: bitLength.simps [of 1] bitLength.simps [of 0])
  ultimately show ?thesis
    by (simp add: ilog2_def Let_def)
qed

lemma roundTiesToEven_of_int: "roundTiesToEven (of_int m) = m"
  by (simp add: roundTiesToEven_def)

lemma fl_of_int:
  assumes "\<bar>k\<bar> < 2 ^ 53"
  shows "fl (of_int k) = of_int k"
proof (cases "k = 0")
  case True
  then show ?thesis by (simp add: fl_def)
next
  case False
  define e where "e = ilog2 \<bar>of_int k\<bar>"
  have "\<bar>of_int k :: rat\<bar> = of_int \<bar>k\<bar>" by simp
  then have "e \<le> 52"
    using ilog2_of_int_le [of "\<bar>k\<bar>"] assms False by (simp add: e_def)
  define n where "n = nat (52 - e)"
  have u: "pow2 (e - 52) = 1 / 2 ^ n"
    using \<open>e \<le> 52\<close> by (cases "e = 52") (simp_all add: pow2_def n_def)
  have "of_int k / pow2 (e - 52) = (of_int (k * 2 ^ n) :: rat)"
    by (simp add: u)
  then have "roundTiesToEven (of_int k / pow2 (e - 52)) = k * 2 ^ n"
    by (simp only: roundTiesToEven_of_int)
  then have "fl (of_int k) = of_int (k * 2 ^ n) * (1 / 2 ^ n)"
    using False by (simp add: fl_def Let_def e_def [symmetric] u)
  then show ?thesis by simp
qed

section \<open>Overdue and due soon\<close>

lemma isOverdue_completed: "isOverdue tz now d True = False"
  by (simp add: isOverdue_def)

lemma isDueSoon_completed: "isDueSoon tz now d True = False"
  by (simp add: isDueSoon_def)

lemma isDueSoon_excludes_overdue:
  "isDueSoon tz now d c \<longrightarrow> \<not> isOverdue tz now d c \<and> \<not> c"
  by (cases c) (auto simp: isDueSoon_def isOverdue_def Let_def)

subsection \<open>Zones with one offset\<close>

text \<open>
  Where the offset never changes, \<open>daysUntilDue\<close> is the difference of two local dates:
  that of midnight UTC of the due date, and that of the clock. At or east of Greenwich
  the first is the due date. West of Greenwich it is the day before the due date, and
  every assignment is overdue from its due date on, one day early.
\<close>

lemma fixedZone_apply: "fixedZone off t b = off"
  by (simp add: fixedZone_def)

lemma setHours0_fixedZone:
  "setHours0 (fixedZone off) t = Day (t + off) * msPerDay - off"
  by (simp add: setHours0_def UTC_def LocalTime_def fixedZone_def)

lemma daysUntilDue_fixedZone:
  assumes "\<bar>localDate (fixedZone off) (Date_parse d) - localDate (fixedZone off) now\<bar> < 2 ^ 53"
  shows "daysUntilDue (fixedZone off) now d
           = localDate (fixedZone off) (Date_parse d) - localDate (fixedZone off) now"
proof -
  let ?m = "localDate (fixedZone off) (Date_parse d) - localDate (fixedZone off) now"
  have "setHours0 (fixedZone off) (Date_parse d) - setHours0 (fixedZone off) now = ?m * msPerDay"
    by (simp add: setHours0_fixedZone localDate_def LocalTime_def fixedZone_apply algebra_simps)
  then have "(of_int (setHours0 (fixedZone off) (Date_parse d) - setHours0 (fixedZone off) now) :: rat)
      / of_int msPerDay = of_int ?m"
    by (simp only: of_int_mult) (simp add: msPerDay_def)
  then have "daysUntilDue (fixedZone off) now d = Math_ceil (fl (of_int ?m))"
    by (simp only: daysUntilDue_def Let_def)
  also have "\<dots> = ?m"
    by (simp only: fl_of_int [OF assms] Math_ceil_def ceiling_of_int)
  finally show ?thesis .
qed

lemma localDate_Date_parse_east:
  assumes "0 \<le> off" "off < msPerDay"
  shows "localDate (fixedZone off) (Date_parse d) = d"
  using assms
  by (simp add: localDate_def LocalTime_def fixedZone_def Date_parse_def Day_def msPerDay_def)

lemma localDate_Date_parse_west:
  assumes "- msPerDay \<le> off" "off < 0"
  shows "localDate (fixedZone off) (Date_parse d) = d - 1"
proof -
  have "(d * msPerDay + off) div msPerDay = d + off div msPerDay"
    by (simp add: msPerDay_def)
  moreover have "off div msPerDay = - 1"
    using assms by (simp add: msPerDay_def div_eq_minus1 zdiv_eq_0_iff)
  ultimately show ?thesis
    by (simp add: localDate_def LocalTime_def fixedZone_def Date_parse_def Day_def)
qed

lemma isOverdue_east_of_utc:
  assumes "0 \<le> off" "off < msPerDay" "\<bar>d - localDate (fixedZone off) now\<bar> < 2 ^ 53"
  shows "isOverdue (fixedZone off) now d c = (\<not> c \<and> d < localDate (fixedZone off) now)"
  using daysUntilDue_fixedZone [of off d now] assms
  by (simp add: isOverdue_def localDate_Date_parse_east)

lemma isOverdue_west_of_utc:
  assumes "- msPerDay \<le> off" "off < 0" "\<bar>d - 1 - localDate (fixedZone off) now\<bar> < 2 ^ 53"
  shows "isOverdue (fixedZone off) now d c = (\<not> c \<and> d \<le> localDate (fixedZone off) now)"
  using daysUntilDue_fixedZone [of off d now] assms
  by (auto simp add: isOverdue_def localDate_Date_parse_west)

lemma isDueSoon_east_of_utc:
  assumes "0 \<le> off" "off < msPerDay" "\<bar>d - localDate (fixedZone off) now\<bar> < 2 ^ 53"
  shows "isDueSoon (fixedZone off) now d c
     = (\<not> c \<and> 0 \<le> d - localDate (fixedZone off) now \<and> d - localDate (fixedZone off) now \<le> 3)"
  using daysUntilDue_fixedZone [of off d now] assms
  by (simp add: isDueSoon_def localDate_Date_parse_east)

lemma isDueSoon_west_of_utc:
  assumes "- msPerDay \<le> off" "off < 0" "\<bar>d - 1 - localDate (fixedZone off) now\<bar> < 2 ^ 53"
  shows "isDueSoon (fixedZone off) now d c
     = (\<not> c \<and> 1 \<le> d - localDate (fixedZone off) now \<and> d - localDate (fixedZone off) now \<le> 4)"
  using daysUntilDue_fixedZone [of off d now] assms
  by (auto simp add: isDueSoon_def localDate_Date_parse_west)

subsection \<open>The claims\<close>

lemma example_dates:
  "dayNumber 1970 1 1 = 0" "dayNumber 2024 1 10 = 19732" "dayNumber 2024 3 10 = 19792"
  "utcTime 2024 1 10 17 0 = 1704906000000" "utcTime 2024 3 10 7 0 = 1710054000000"
  by code_simp+

text \<open>
  C1. The claim: an incomplete assignment is overdue if and only if the calendar date of
  its due date is strictly before the current calendar date. Take a browser five hours
  west of Greenwich all year, at 2024-01-10 12:00 local time (17:00Z), and the due date
  \<open>2024-01-10\<close>. The current local date is 2024-01-10 too, so the assignment is due
  today and not overdue. The code reads the string as midnight UTC, which is 19:00 of
  the day before in local time; \<open>setHours(0, 0, 0, 0)\<close> then moves it to the local
  midnight of 2024-01-09, \<open>daysUntilDue\<close> is \<open>-1\<close> and \<open>isOverdue\<close> is true.
\<close>

theorem isOverdue_due_today_west_of_utc:
  "isOverdue fiveHoursWest (utcTime 2024 1 10 17 0) (dayNumber 2024 1 10) False = True
     \<and> localDate fiveHoursWest (utcTime 2024 1 10 17 0) = dayNumber 2024 1 10
     \<and> daysUntilDue fiveHoursWest (utcTime 2024 1 10 17 0) (dayNumber 2024 1 10) = - 1"
  by code_simp

text \<open>
  A second input, for the reading in which the calendar date of the due date is the
  local date of the \<open>Date\<close> built from it. In a zone of standard offset \<open>-5 h\<close> whose
  clocks go forward at 2024-03-10T07:00Z, at 2024-03-11 12:00 local time (16:00Z), the
  string \<open>2024-03-11\<close> gives a \<open>Date\<close> whose local date is 2024-03-10, the day before
  the current local date. The two local midnights are 23 hours apart, \<open>Math.ceil\<close> of
  \<open>-23 / 24\<close> is \<open>-0\<close>, and the assignment is reported as due soon, not overdue.
\<close>

lemma isOverdue_after_clock_change:
  "isOverdue easternTime2024 (utcTime 2024 3 11 16 0) (dayNumber 2024 3 11) False = False
     \<and> isDueSoon easternTime2024 (utcTime 2024 3 11 16 0) (dayNumber 2024 3 11) False = True
     \<and> localDate easternTime2024 (Date_parse (dayNumber 2024 3 11)) = dayNumber 2024 3 10
     \<and> localDate easternTime2024 (utcTime 2024 3 11 16 0) = dayNumber 2024 3 11
     \<and> setHours0 easternTime2024 (Date_parse (dayNumber 2024 3 11))
           - setHours0 easternTime2024 (utcTime 2024 3 11 16 0) = - 23 * msPerHour"
  by code_simp

text \<open>
  The scenario of the specification: due 2024-01-10, looked at on 2024-01-15 (at noon
  UTC, which is on the 15th at Greenwich and five hours west of it): overdue while
  incomplete, and not overdue once completed.
\<close>

lemma isOverdue_scenario:
  "isOverdue (fixedZone 0) (utcTime 2024 1 15 12 0) (dayNumber 2024 1 10) False = True
     \<and> isOverdue fiveHoursWest (utcTime 2024 1 15 12 0) (dayNumber 2024 1 10) False = True
     \<and> isOverdue (fixedZone 0) (utcTime 2024 1 15 12 0) (dayNumber 2024 1 10) True = False"
  by code_simp

text \<open>
  C2. The claim: \<open>isDueSoon\<close> holds if and only if the assignment is incomplete, not
  overdue, and the days from the current calendar date to the due calendar date are
  between 0 and 3. In the zone and at the time of C1, the current local date is
  2024-01-10. The due date \<open>2024-01-14\<close> is four days ahead and not overdue, and the
  code reports it as due soon, because it counts from the local date of midnight UTC,
  which is 2024-01-13. The due date \<open>2024-01-10\<close> itself is zero days ahead and the
  code does not report it as due soon.
\<close>

theorem isDueSoon_four_days_ahead_west_of_utc:
  "isDueSoon fiveHoursWest (utcTime 2024 1 10 17 0) (dayNumber 2024 1 14) False = True
     \<and> isOverdue fiveHoursWest (utcTime 2024 1 10 17 0) (dayNumber 2024 1 14) False = False
     \<and> dayNumber 2024 1 14 - localDate fiveHoursWest (utcTime 2024 1 10 17 0) = 4
     \<and> isDueSoon fiveHoursWest (utcTime 2024 1 10 17 0) (dayNumber 2024 1 10) False = False"
  by code_simp

section \<open>Progress percentage\<close>

lemma calculateProgress_zero_total: "calculateProgress c 0 = 0"
  by (simp add: calculateProgress_def)

lemma calculateProgress_3_4: "calculateProgress 3 4 = 75"
  by code_simp

lemma calculateProgress_1_2: "calculateProgress 1 2 = 50"
  by code_simp

lemma Math_round_0_100: "Math_round 0 = 0" "Math_round 100 = 100"
  by code_simp+

lemma calculateProgress_none_done: "calculateProgress 0 t = 0"
  by (simp add: calculateProgress_def fl_def Math_round_0_100)

lemma calculateProgress_all_done: "t \<noteq> 0 \<Longrightarrow> calculateProgress t t = 100"
  using fl_of_int [of 1] fl_of_int [of 100]
  by (simp add: calculateProgress_def Math_round_0_100)

text \<open>
  C3. The claim: for all counts, the result is \<open>round (100 * completed / total)\<close> when
  \<open>total > 0\<close>. The code divides first and multiplies by 100 afterwards, both in
  binary64. At \<open>completed = 23\<close>, \<open>total = 40\<close> the exact percentage is \<open>57.5\<close>, which
  rounds to 58 (a tie going up, and also a tie going to the even integer); the quotient
  \<open>23 / 40\<close> is not a binary64 value, the product comes out just below \<open>57.5\<close>, and the
  code returns 57.
\<close>

theorem calculateProgress_23_40:
  "calculateProgress 23 40 = 57 \<and> Math_round (100 * 23 / 40) = 58
     \<and> fl (fl (23 / 40) * 100) = 8092405580431359 / 140737488355328"
  by code_simp

section \<open>Priority display info\<close>

lemma getPriorityInfo_known:
  "getPriorityInfo (Some ''high'') = Own \<lparr>cls = ''priority-high'', label = ''High'', order = 1\<rparr>
   \<and> getPriorityInfo (Some ''medium'') = Own \<lparr>cls = ''priority-medium'', label = ''Medium'', order = 2\<rparr>
   \<and> getPriorityInfo (Some ''low'') = Own \<lparr>cls = ''priority-low'', label = ''Low'', order = 3\<rparr>"
  by code_simp

lemma getPriorityInfo_undefined:
  "getPriorityInfo None = Own \<lparr>cls = ''priority-medium'', label = ''Medium'', order = 2\<rparr>"
  by code_simp

lemma getPriorityInfo_unknown:
  assumes "k \<notin> {''high'', ''medium'', ''low''}" and "k \<notin> set Object_prototype_names"
  shows "getPriorityInfo (Some k) = Own \<lparr>cls = ''priority-medium'', label = ''Medium'', order = 2\<rparr>"
  using assms
  by (simp add: getPriorityInfo_def Get_def ToPropertyKey_def priorities_def truthy_def)

text \<open>
  C10. The claim: every string outside \<open>high\<close>, \<open>medium\<close>, \<open>low\<close> gets the medium entry.
  The lookup \<open>priorities[priority]\<close> also finds what the object literal inherits from
  \<open>Object.prototype\<close>. For the string \<open>constructor\<close> it yields the inherited function,
  which is truthy, so \<open>|| priorities.medium\<close> is not taken and the function is
  returned: a value with no \<open>class\<close>, \<open>label\<close> or \<open>order\<close>.
\<close>

theorem getPriorityInfo_constructor:
  "getPriorityInfo (Some ''constructor'') = Inherited ''constructor''
     \<and> getPriorityInfo (Some ''constructor'') \<noteq> Get priorities ''medium''"
  by code_simp

section \<open>Filtering\<close>

lemma String_includes_sublist: "String_includes s sub = sublist sub s"
  by (induction s) (auto simp: sublist_Cons_right)

lemma containsIgnoringCase_code [code]:
  "containsIgnoringCase s field = String_includes (toLowerCase field) (toLowerCase s)"
  by (simp add: containsIgnoringCase_def String_includes_sublist)

lemma fieldIncludes_fieldContains:
  "s \<noteq> [] \<Longrightarrow> fieldIncludes field (toLowerCase s) = fieldContains s field"
  by (auto simp: fieldIncludes_def fieldContains_def containsIgnoringCase_def
      String_includes_sublist toLowerCase_def split: option.splits)

lemma matchesSearch_code_search:
  "s \<noteq> [] \<Longrightarrow> matchesSearch (toLowerCase s) a = code_search s a"
  by (simp add: matchesSearch_def code_search_def fieldIncludes_fieldContains
      containsIgnoringCase_def String_includes_sublist)

text \<open>The three steps of the function, each as one \<open>filter\<close>, and their composition.\<close>

lemma filterAssignments_criteria:
  "filterAssignments xs fs =
     filter (\<lambda>a. courseCriterion fs a \<and> statusCriterion fs a \<and> searchCriterion fs a) xs"
proof -
  have c: "(case filter_courseId fs of None \<Rightarrow> xs
            | Some c \<Rightarrow> if c = [] then xs else filter (sameCourse c) xs)
           = filter (courseCriterion fs) xs"
    by (auto simp: courseCriterion_def sameCourse_def split: option.splits intro: filter_cong)
  have st: "(if filter_status fs = Some ''completed'' then filter (\<lambda>a. completed a) ys
             else if filter_status fs = Some ''incomplete'' then filter (\<lambda>a. \<not> completed a) ys
             else ys) = filter (statusCriterion fs) ys" for ys
    by (auto simp: statusCriterion_def intro!: filter_cong)
  have se: "(case filter_search fs of None \<Rightarrow> ys
             | Some s \<Rightarrow> if s = [] then ys
                 else filter (matchesSearch (toLowerCase s)) ys)
            = filter (searchCriterion fs) ys" for ys
    by (auto simp: searchCriterion_def matchesSearch_code_search split: option.splits
        intro: filter_cong)
  have "filterAssignments xs fs =
      filter (searchCriterion fs) (filter (statusCriterion fs) (filter (courseCriterion fs) xs))"
    by (simp only: filterAssignments_def Let_def c st se)
  then show ?thesis
    by (simp add: conj_commute conj_left_commute)
qed

text \<open>
  C4. The claim: a non-empty search string keeps exactly the assignments that contain
  it, ignoring case, in the title, the description, the course name or the course code.
  The code does not look at the course code: the essay of course \<open>ENG101\<close> matches the
  search \<open>eng101\<close> in the sense of the claim (\<open>spec_search\<close>), and the code drops it.
\<close>

theorem filterAssignments_course_code_counterexample:
  "filterAssignments [essay]
      \<lparr>filter_courseId = None, filter_status = None, filter_search = Some ''eng101''\<rparr> = []
   \<and> spec_search ''eng101'' essay"
  by code_simp

text \<open>
  C4, as amended: a non-empty search string keeps exactly the assignments that contain
  it, ignoring case, in the title, in the description or in the course name
  (\<open>code_search\<close>), among those that pass the other criteria; an absent or empty search
  string imposes no restriction.
\<close>

theorem filterAssignments_search_fields:
  "(s \<noteq> [] \<longrightarrow>
      filterAssignments xs \<lparr>filter_courseId = None, filter_status = None, filter_search = Some s\<rparr>
        = filter (code_search s) xs
      \<and> filterAssignments xs (fs\<lparr>filter_search := Some s\<rparr>)
        = filter (code_search s) (filterAssignments xs (fs\<lparr>filter_search := None\<rparr>)))
   \<and> filterAssignments xs (fs\<lparr>filter_search := Some []\<rparr>)
        = filterAssignments xs (fs\<lparr>filter_search := None\<rparr>)
   \<and> filterAssignments xs \<lparr>filter_courseId = None, filter_status = None, filter_search = None\<rparr> = xs"
  by (auto simp: filterAssignments_criteria courseCriterion_def statusCriterion_def
      searchCriterion_def intro: filter_cong)

theorem filterAssignments_search_fields_witness:
  "''comp'' \<noteq> [] \<and>
   filterAssignments [essay, quiz, readingLog]
      \<lparr>filter_courseId = None, filter_status = None, filter_search = Some ''comp''\<rparr>
     = filter (code_search ''comp'') [essay, quiz, readingLog]"
proof -
  have h: "''comp'' \<noteq> []" by simp
  from filterAssignments_search_fields [of "''comp''" "[essay, quiz, readingLog]"] h
  show ?thesis by blast
qed

lemma filterAssignments_search_example:
  "filterAssignments [essay, quiz, readingLog]
      \<lparr>filter_courseId = None, filter_status = None, filter_search = Some ''COMP''\<rparr>
     = [essay, readingLog]"
  by code_simp

text \<open>
  C5. The three criteria compose with logical AND. The status \<open>completed\<close> keeps exactly
  the completed assignments, \<open>incomplete\<close> exactly the others, any other or absent
  status imposes no restriction, and a course filter with the status \<open>incomplete\<close>
  keeps exactly the incomplete assignments of that course.
\<close>

theorem filterAssignments_and:
  "filterAssignments xs fs =
     filter (\<lambda>a. courseCriterion fs a \<and> statusCriterion fs a \<and> searchCriterion fs a) xs
   \<and> filterAssignments xs \<lparr>filter_courseId = None, filter_status = Some ''completed'', filter_search = None\<rparr>
       = filter (\<lambda>a. completed a) xs
   \<and> filterAssignments xs \<lparr>filter_courseId = None, filter_status = Some ''incomplete'', filter_search = None\<rparr>
       = filter (\<lambda>a. \<not> completed a) xs
   \<and> (st \<noteq> Some ''completed'' \<and> st \<noteq> Some ''incomplete'' \<longrightarrow>
        filterAssignments xs (fs\<lparr>filter_status := st\<rparr>) = filterAssignments xs (fs\<lparr>filter_status := None\<rparr>))
   \<and> (c \<noteq> [] \<longrightarrow>
        filterAssignments xs \<lparr>filter_courseId = Some c, filter_status = Some ''incomplete'', filter_search = None\<rparr>
          = filter (\<lambda>a. parseInt c = Some (courseId a) \<and> \<not> completed a) xs)"
  by (auto simp: filterAssignments_criteria courseCriterion_def statusCriterion_def
      searchCriterion_def intro: filter_cong)

theorem filterAssignments_and_witness:
  "Some ''all'' \<noteq> Some ''completed'' \<and> Some ''all'' \<noteq> Some ''incomplete'' \<and> ''1'' \<noteq> []
   \<and> filterAssignments [essay, quiz, readingLog]
        \<lparr>filter_courseId = Some ''1'', filter_status = Some ''all'', filter_search = None\<rparr>
      = filterAssignments [essay, quiz, readingLog]
        \<lparr>filter_courseId = Some ''1'', filter_status = None, filter_search = None\<rparr>
   \<and> filterAssignments [essay, quiz, readingLog]
        \<lparr>filter_courseId = Some ''1'', filter_status = Some ''incomplete'', filter_search = None\<rparr>
      = filter (\<lambda>a. parseInt ''1'' = Some (courseId a) \<and> \<not> completed a) [essay, quiz, readingLog]"
proof -
  have h1: "Some ''all'' \<noteq> Some ''completed'' \<and> Some ''all'' \<noteq> Some ''incomplete''" by simp
  have h2: "''1'' \<noteq> []" by simp
  from filterAssignments_and [of "[essay, quiz, readingLog]"
      "\<lparr>filter_courseId = Some ''1'', filter_status = None, filter_search = None\<rparr>"
      "Some ''all''" "''1''"] h1 h2
  show ?thesis by simp
qed

lemma filterAssignments_and_example:
  "filterAssignments [essay, quiz, readingLog]
      \<lparr>filter_courseId = Some ''1'', filter_status = Some ''incomplete'', filter_search = None\<rparr>
     = [essay]
   \<and> filterAssignments [essay, quiz, readingLog]
      \<lparr>filter_courseId = None, filter_status = Some ''completed'', filter_search = Some ''''\<rparr>
     = [quiz, readingLog]"
  by code_simp

section \<open>Sorting\<close>

text \<open>
  Where the comparison function orders by an integer key, the sort is the stable
  insertion sort by that key.
\<close>

lemma insertSorted_insort_key:
  assumes "\<And>y. y \<in> set ys \<Longrightarrow> (SortCompare cmp x y \<le> 0) = (f x \<le> f y)"
  shows "insertSorted cmp x ys = insort_key f x ys"
  using assms by (induction ys) auto

lemma set_insertSorted: "set (insertSorted cmp x ys) = insert x (set ys)"
  by (induction ys) auto

lemma set_Array_sort: "set (Array_sort cmp xs) = set xs"
  by (induction xs) (simp_all add: Array_sort_def set_insertSorted)

lemma Array_sort_sort_key:
  fixes f :: "'a \<Rightarrow> int"
  assumes "\<And>x y. x \<in> set xs \<Longrightarrow> y \<in> set xs \<Longrightarrow> (SortCompare cmp x y \<le> 0) = (f x \<le> f y)"
  shows "Array_sort cmp xs = sort_key f xs"
  using assms
proof (induction xs)
  case Nil
  show ?case by (simp add: Array_sort_def)
next
  case (Cons x xs)
  have IH: "Array_sort cmp xs = sort_key f xs"
    using Cons by simp
  have "Array_sort cmp (x # xs) = insertSorted cmp x (Array_sort cmp xs)"
    by (simp add: Array_sort_def)
  also have "\<dots> = insort_key f x (Array_sort cmp xs)"
    by (rule insertSorted_insort_key) (simp add: Cons.prems set_Array_sort)
  finally show ?case by (simp add: IH)
qed

lemma byDueDate_key: "(SortCompare byDueDate a b \<le> 0) = (dueDate a \<le> dueDate b)"
  by (simp add: SortCompare_def byDueDate_def Date_parse_def msPerDay_def)

lemma byPoints_key: "(SortCompare byPoints a b \<le> 0) = (- points a \<le> - points b)"
  by (simp add: SortCompare_def byPoints_def)

lemma priorityOrder_rank:
  "p \<in> {''high'', ''medium'', ''low''} \<Longrightarrow> ToNumber (Get priorityOrder p) = Some (priorityRank p)"
  by (auto simp: ToNumber_def Get_def priorityOrder_def priorityRank_def)

lemma byPriority_key:
  assumes "priority a \<in> {''high'', ''medium'', ''low''}"
    and "priority b \<in> {''high'', ''medium'', ''low''}"
  shows "(SortCompare byPriority a b \<le> 0) = (priorityRank (priority a) \<le> priorityRank (priority b))"
  using assms
  by (simp add: SortCompare_def byPriority_def minus_number_def priorityOrder_rank del: insert_iff)

lemma sort_dueDate: "sortAssignments xs ''dueDate'' = sort_key dueDate xs"
  by (simp add: sortAssignments_def Array_sort_sort_key [where f = dueDate] byDueDate_key)

lemma sort_default:
  "k \<noteq> ''dueDate'' \<Longrightarrow> k \<noteq> ''priority'' \<Longrightarrow> k \<noteq> ''points'' \<Longrightarrow>
     sortAssignments xs k = sortAssignments xs ''dueDate''"
  by (simp add: sortAssignments_def)

lemma sort_points: "sortAssignments xs ''points'' = sort_key (\<lambda>a. - points a) xs"
  by (simp add: sortAssignments_def Array_sort_sort_key [where f = "\<lambda>a. - points a"] byPoints_key)

lemma sort_priority:
  assumes "\<forall>a \<in> set xs. priority a \<in> {''high'', ''medium'', ''low''}"
  shows "sortAssignments xs ''priority'' = sort_key (\<lambda>a. priorityRank (priority a)) xs"
proof -
  have "Array_sort byPriority xs = sort_key (\<lambda>a. priorityRank (priority a)) xs"
    by (rule Array_sort_sort_key) (use assms byPriority_key in blast)
  then show ?thesis by (simp add: sortAssignments_def)
qed

lemma before_of_sorted:
  fixes g :: "'a \<Rightarrow> int"
  assumes "sorted (map g ys)" "i < length ys" "j < length ys" "g (ys ! i) < g (ys ! j)"
  shows "i < j"
proof (rule ccontr)
  assume "\<not> i < j"
  then have "j \<le> i" by simp
  with assms(1,2) have "map g ys ! j \<le> map g ys ! i"
    by (simp add: sorted_iff_nth_mono)
  with assms show False by simp
qed

lemma filter_priority_rank:
  assumes "\<forall>a \<in> set zs. priority a \<in> {''high'', ''medium'', ''low''}"
    and "p \<in> {''high'', ''medium'', ''low''}"
  shows "filter (\<lambda>a. priority a = p) zs = filter (\<lambda>a. priorityRank (priority a) = priorityRank p) zs"
  by (rule filter_cong) (use assms in \<open>auto simp: priorityRank_def\<close>)

lemma filter_priority_none:
  assumes "\<forall>a \<in> set zs. priority a \<in> {''high'', ''medium'', ''low''}"
    and "p \<notin> {''high'', ''medium'', ''low''}"
  shows "filter (\<lambda>a. priority a = p) zs = []"
  using assms by (auto simp: filter_empty_conv)

lemma sort_priority_stable:
  assumes "\<forall>a \<in> set xs. priority a \<in> {''high'', ''medium'', ''low''}"
  shows "filter (\<lambda>a. priority a = p) (sortAssignments xs ''priority'')
           = filter (\<lambda>a. priority a = p) xs"
proof -
  let ?ys = "sortAssignments xs ''priority''"
  have eq: "?ys = sort_key (\<lambda>a. priorityRank (priority a)) xs"
    using assms by (rule sort_priority)
  have v: "\<forall>a \<in> set ?ys. priority a \<in> {''high'', ''medium'', ''low''}"
    using assms by (simp add: eq del: insert_iff)
  show ?thesis
  proof (cases "p \<in> {''high'', ''medium'', ''low''}")
    case True
    have "filter (\<lambda>a. priority a = p) ?ys
            = filter (\<lambda>a. priorityRank (priority a) = priorityRank p) ?ys"
      using v True by (rule filter_priority_rank)
    also have "\<dots> = filter (\<lambda>a. priorityRank (priority a) = priorityRank p) xs"
      unfolding eq by (rule sort_key_stable)
    also have "\<dots> = filter (\<lambda>a. priority a = p) xs"
      using assms True by (rule filter_priority_rank [symmetric])
    finally show ?thesis .
  next
    case False
    then show ?thesis
      using filter_priority_none [OF v] filter_priority_none [OF assms] by simp
  qed
qed

text \<open>
  C6. For a list whose priorities are all \<open>high\<close>, \<open>medium\<close> or \<open>low\<close>, the sort by
  priority returns the same assignments, in ascending rank (high 1, medium 2, low 3):
  every high item is in front of every medium and every low item, every medium item in
  front of every low item, and items of equal priority are in their input order. The sort by due date is ascending and stable, and any key other
  than the three named ones sorts by due date. The sort by points is descending and
  stable.
\<close>

theorem sortAssignments_ordered_stable:
  "((\<forall>a \<in> set xs. priority a \<in> {''high'', ''medium'', ''low''}) \<longrightarrow>
      mset (sortAssignments xs ''priority'') = mset xs
      \<and> sorted (map (\<lambda>a. priorityRank (priority a)) (sortAssignments xs ''priority''))
      \<and> (\<forall>i j. i < length xs \<and> j < length xs
            \<and> (priority (sortAssignments xs ''priority'' ! i) = ''high''
                  \<and> (priority (sortAssignments xs ''priority'' ! j) = ''medium''
                       \<or> priority (sortAssignments xs ''priority'' ! j) = ''low'')
                \<or> priority (sortAssignments xs ''priority'' ! i) = ''medium''
                  \<and> priority (sortAssignments xs ''priority'' ! j) = ''low'') \<longrightarrow> i < j)
      \<and> (\<forall>p. filter (\<lambda>a. priority a = p) (sortAssignments xs ''priority'')
              = filter (\<lambda>a. priority a = p) xs))
   \<and> mset (sortAssignments xs ''dueDate'') = mset xs
   \<and> sorted (map dueDate (sortAssignments xs ''dueDate''))
   \<and> (\<forall>d. filter (\<lambda>a. dueDate a = d) (sortAssignments xs ''dueDate'')
           = filter (\<lambda>a. dueDate a = d) xs)
   \<and> (\<forall>k. k \<noteq> ''dueDate'' \<and> k \<noteq> ''priority'' \<and> k \<noteq> ''points'' \<longrightarrow>
           sortAssignments xs k = sortAssignments xs ''dueDate'')
   \<and> mset (sortAssignments xs ''points'') = mset xs
   \<and> sorted_wrt (\<lambda>x y. y \<le> x) (map points (sortAssignments xs ''points''))
   \<and> (\<forall>n. filter (\<lambda>a. points a = n) (sortAssignments xs ''points'')
           = filter (\<lambda>a. points a = n) xs)"
proof (intro conjI impI allI)
  assume v: "\<forall>a \<in> set xs. priority a \<in> {''high'', ''medium'', ''low''}"
  let ?ys = "sortAssignments xs ''priority''"
  have eq: "?ys = sort_key (\<lambda>a. priorityRank (priority a)) xs"
    using v by (rule sort_priority)
  show "mset ?ys = mset xs" by (simp add: eq)
  show "filter (\<lambda>a. priority a = p) ?ys = filter (\<lambda>a. priority a = p) xs" for p
    using v by (rule sort_priority_stable)
  show s: "sorted (map (\<lambda>a. priorityRank (priority a)) ?ys)"
    unfolding eq by (rule sorted_sort_key)
  have len: "length ?ys = length xs" by (simp add: eq)
  show "i < j"
    if "i < length xs \<and> j < length xs
        \<and> (priority (?ys ! i) = ''high''
              \<and> (priority (?ys ! j) = ''medium'' \<or> priority (?ys ! j) = ''low'')
            \<or> priority (?ys ! i) = ''medium'' \<and> priority (?ys ! j) = ''low'')" for i j
  proof -
    from that have "priorityRank (priority (?ys ! i)) < priorityRank (priority (?ys ! j))"
      by (auto simp: priorityRank_def)
    with before_of_sorted [OF s, of i j] len that show ?thesis by simp
  qed
next
  show "mset (sortAssignments xs ''dueDate'') = mset xs"
    by (simp add: sort_dueDate)
  show "sorted (map dueDate (sortAssignments xs ''dueDate''))"
    unfolding sort_dueDate by (rule sorted_sort_key)
  show "filter (\<lambda>a. dueDate a = d) (sortAssignments xs ''dueDate'') = filter (\<lambda>a. dueDate a = d) xs" for d
    unfolding sort_dueDate by (rule sort_key_stable)
  show "sortAssignments xs k = sortAssignments xs ''dueDate''"
    if "k \<noteq> ''dueDate'' \<and> k \<noteq> ''priority'' \<and> k \<noteq> ''points''" for k
    using that by (simp add: sort_default)
  show "mset (sortAssignments xs ''points'') = mset xs"
    by (simp add: sort_points)
  have "sorted (map (\<lambda>a. - points a) (sortAssignments xs ''points''))"
    unfolding sort_points by (rule sorted_sort_key)
  then show "sorted_wrt (\<lambda>x y. y \<le> x) (map points (sortAssignments xs ''points''))"
    by (simp add: sorted_wrt_map)
  have "filter (\<lambda>a. - points a = - n) (sortAssignments xs ''points'')
          = filter (\<lambda>a. - points a = - n) xs" for n
    unfolding sort_points by (rule sort_key_stable)
  then show "filter (\<lambda>a. points a = n) (sortAssignments xs ''points'') = filter (\<lambda>a. points a = n) xs" for n
    by simp
qed

lemma sortAssignments_examples:
  "sortAssignments [quiz, essay, readingLog, problemSet] ''priority''
     = [essay, problemSet, readingLog, quiz]
   \<and> sortAssignments [quiz, essay, readingLog, problemSet] ''dueDate''
     = [readingLog, essay, problemSet, quiz]
   \<and> sortAssignments [quiz, essay, readingLog, problemSet] ''points''
     = [essay, quiz, problemSet, readingLog]
   \<and> sortAssignments [quiz, essay, readingLog, problemSet] ''title''
     = [readingLog, essay, problemSet, quiz]"
  by code_simp

theorem sortAssignments_ordered_stable_witness:
  "map priority [quiz, essay, readingLog, problemSet] = [''low'', ''high'', ''medium'', ''high'']
   \<and> filter (\<lambda>a. priority a = ''high'') (sortAssignments [quiz, essay, readingLog, problemSet] ''priority'')
       = filter (\<lambda>a. priority a = ''high'') [quiz, essay, readingLog, problemSet]
   \<and> mset (sortAssignments [quiz, essay, readingLog, problemSet] ''priority'')
       = mset [quiz, essay, readingLog, problemSet]
   \<and> sortAssignments [quiz, essay, readingLog, problemSet] ''title''
       = sortAssignments [quiz, essay, readingLog, problemSet] ''dueDate''"
proof -
  have p: "map priority [quiz, essay, readingLog, problemSet] = [''low'', ''high'', ''medium'', ''high'']"
    by (simp add: quiz_def essay_def readingLog_def problemSet_def)
  have h: "\<forall>a \<in> set [quiz, essay, readingLog, problemSet]. priority a \<in> {''high'', ''medium'', ''low''}"
    by (simp add: quiz_def essay_def readingLog_def problemSet_def)
  have k: "''title'' \<noteq> ''dueDate'' \<and> ''title'' \<noteq> ''priority'' \<and> ''title'' \<noteq> ''points''"
    by simp
  note T = sortAssignments_ordered_stable [of "[quiz, essay, readingLog, problemSet]"]
  note A = T [THEN conjunct1, THEN mp, OF h]
  note m = A [THEN conjunct1]
  note s = A [THEN conjunct2, THEN conjunct2, THEN conjunct2, THEN spec, of "''high''"]
  note d = T [THEN conjunct2, THEN conjunct2, THEN conjunct2, THEN conjunct2, THEN conjunct1,
      THEN spec, of "''title''", THEN mp, OF k]
  show ?thesis
    by (rule conjI [OF p conjI [OF s conjI [OF m d]]])
qed

section \<open>The input array is left as it was\<close>

lemma sortAssignments_heap_result:
  assumes "p < length h"
  shows "sortAssignments_heap h p k = Some (length h, h @ [sortAssignments (h ! p) k])"
  using assms
  by (simp add: sortAssignments_heap_def spread_def Array_sort_in_place_def sortAssignments_def
      nth_append)

lemma filterAssignments_heap_result:
  assumes "p < length h"
  shows "\<exists>q h'. filterAssignments_heap h p fs = Some (q, h')
           \<and> length h \<le> q \<and> q < length h' \<and> take (length h) h' = h
           \<and> h' ! q = filterAssignments (h ! p) fs"
  using assms
  by (auto simp: filterAssignments_heap_def spread_def Array_filter_new_def filterAssignments_def
      nth_append Let_def split: option.splits)

text \<open>
  C7. Called on an array of the memory, the sort and the filter return a new array, at
  an address that was free (\<open>length h \<le> q\<close>); every array that was there, the input
  among them, is as before (\<open>take (length h) h' = h\<close>); and the new array holds the
  value computed from the input array's contents and the key or criteria alone.
\<close>

theorem sort_and_filter_leave_input:
  "p < length h \<longrightarrow>
     (\<exists>q h'. sortAssignments_heap h p k = Some (q, h')
        \<and> length h \<le> q \<and> q < length h' \<and> take (length h) h' = h \<and> h' ! p = h ! p
        \<and> h' ! q = sortAssignments (h ! p) k)
     \<and> (\<exists>q h'. filterAssignments_heap h p fs = Some (q, h')
        \<and> length h \<le> q \<and> q < length h' \<and> take (length h) h' = h \<and> h' ! p = h ! p
        \<and> h' ! q = filterAssignments (h ! p) fs)"
proof (intro impI conjI)
  assume p: "p < length h"
  show "\<exists>q h'. sortAssignments_heap h p k = Some (q, h')
        \<and> length h \<le> q \<and> q < length h' \<and> take (length h) h' = h \<and> h' ! p = h ! p
        \<and> h' ! q = sortAssignments (h ! p) k"
    using p by (simp add: sortAssignments_heap_result nth_append)
  from filterAssignments_heap_result [OF p, of fs]
  obtain q h' where f: "filterAssignments_heap h p fs = Some (q, h')"
     "length h \<le> q" "q < length h'" "take (length h) h' = h"
     "h' ! q = filterAssignments (h ! p) fs" by blast
  have "h' ! p = take (length h) h' ! p" using p by simp
  then have "h' ! p = h ! p" using f(4) by simp
  with f show "\<exists>q h'. filterAssignments_heap h p fs = Some (q, h')
        \<and> length h \<le> q \<and> q < length h' \<and> take (length h) h' = h \<and> h' ! p = h ! p
        \<and> h' ! q = filterAssignments (h ! p) fs" by blast
qed

theorem sort_and_filter_leave_input_witness:
  "(0::nat) < length [[quiz, essay]]
   \<and> (\<exists>q h'. sortAssignments_heap [[quiz, essay]] 0 ''priority'' = Some (q, h')
         \<and> h' ! 0 = [[quiz, essay]] ! 0 \<and> h' ! q = sortAssignments ([[quiz, essay]] ! 0) ''priority'')
   \<and> (\<exists>q h'. filterAssignments_heap [[quiz, essay]] 0
           \<lparr>filter_courseId = None, filter_status = Some ''completed'', filter_search = None\<rparr>
         = Some (q, h')
         \<and> h' ! 0 = [[quiz, essay]] ! 0)"
proof -
  have h: "(0::nat) < length [[quiz, essay]]" by simp
  note T = sort_and_filter_leave_input [where p = 0 and h = "[[quiz, essay]]"
      and k = "''priority''"
      and fs = "\<lparr>filter_courseId = None, filter_status = Some ''completed'', filter_search = None\<rparr>",
      THEN mp, OF h]
  from T [THEN conjunct1] obtain q h' where
    s: "sortAssignments_heap [[quiz, essay]] 0 ''priority'' = Some (q, h')"
       "h' ! 0 = [[quiz, essay]] ! 0"
       "h' ! q = sortAssignments ([[quiz, essay]] ! 0) ''priority''"
    by blast
  from T [THEN conjunct2] obtain q2 h2 where
    f: "filterAssignments_heap [[quiz, essay]] 0
           \<lparr>filter_courseId = None, filter_status = Some ''completed'', filter_search = None\<rparr>
         = Some (q2, h2)"
       "h2 ! 0 = [[quiz, essay]] ! 0"
    by blast
  from h s f show ?thesis by blast
qed

lemma sort_and_filter_memory_example:
  "sortAssignments_heap [[quiz, essay]] 0 ''priority'' = Some (1, [[quiz, essay], [essay, quiz]])
   \<and> filterAssignments_heap [[quiz, essay]] 0
        \<lparr>filter_courseId = Some ''2'', filter_status = Some ''completed'', filter_search = None\<rparr>
      = Some (3, [[quiz, essay], [quiz, essay], [quiz], [quiz]])
   \<and> sortAssignments_heap [[quiz, essay]] 1 ''priority'' = None"
  by code_simp

section \<open>The store operations of the specification\<close>

lemma find_toggle:
  "find (\<lambda>a. a_id a = i) (map (\<lambda>x. if a_id x = i then toggle now x else x) xs)
     = map_option (toggle now) (find (\<lambda>a. a_id a = i) xs)"
  by (induction xs) (auto simp: toggle_def)

lemma toggle_twice_completed:
  "map a_completed (map (\<lambda>x. if a_id x = i then toggle t2 x else x)
       (map (\<lambda>x. if a_id x = i then toggle t1 x else x) xs)) = map a_completed xs"
  by (induction xs) (auto simp: toggle_def)

text \<open>
  C8. For a stored assignment, two calls of \<open>toggleComplete\<close> succeed; the flag is
  flipped after the first and back at its original value after the second, for this
  assignment and all others; and the history has grown by exactly two entries, both for
  the field \<open>completed\<close> of this assignment: first from the original value to its
  negation, then back.
\<close>

theorem toggleComplete_twice:
  "find (\<lambda>a. a_id a = i) (st_assignments s) = Some a \<longrightarrow>
     (\<exists>s1 s2 e1 e2.
        toggleComplete i t1 s = (Inr (), s1) \<and> toggleComplete i t2 s1 = (Inr (), s2)
        \<and> map a_completed (st_assignments s2) = map a_completed (st_assignments s)
        \<and> map a_id (st_assignments s2) = map a_id (st_assignments s)
        \<and> map_option a_completed (find (\<lambda>a. a_id a = i) (st_assignments s1)) = Some (\<not> a_completed a)
        \<and> map_option a_completed (find (\<lambda>a. a_id a = i) (st_assignments s2)) = Some (a_completed a)
        \<and> st_history s2 = st_history s @ [e1, e2]
        \<and> h_assignmentId e1 = i \<and> h_field e1 = ''completed''
        \<and> h_previous e1 = BoolValue (a_completed a) \<and> h_new e1 = BoolValue (\<not> a_completed a)
        \<and> h_assignmentId e2 = i \<and> h_field e2 = ''completed''
        \<and> h_previous e2 = BoolValue (\<not> a_completed a) \<and> h_new e2 = BoolValue (a_completed a)
        \<and> st_courses s2 = st_courses s)"
proof
  assume f: "find (\<lambda>a. a_id a = i) (st_assignments s) = Some a"
  let ?e1 = "\<lparr>h_id = nextHistoryId (st_history s), h_assignmentId = i,
                 h_field = ''completed'',
                 h_previous = BoolValue (a_completed a),
                 h_new = BoolValue (\<not> a_completed a),
                 h_timestamp = t1\<rparr>"
  let ?s1 = "s\<lparr>st_assignments := map (\<lambda>x. if a_id x = i then toggle t1 x else x) (st_assignments s),
             st_history := st_history s @ [?e1]\<rparr>"
  let ?e2 = "\<lparr>h_id = nextHistoryId (st_history ?s1), h_assignmentId = i,
                 h_field = ''completed'',
                 h_previous = BoolValue (\<not> a_completed a),
                 h_new = BoolValue (a_completed a),
                 h_timestamp = t2\<rparr>"
  let ?s2 = "?s1\<lparr>st_assignments := map (\<lambda>x. if a_id x = i then toggle t2 x else x) (st_assignments ?s1),
             st_history := st_history ?s1 @ [?e2]\<rparr>"
  have 1: "toggleComplete i t1 s = (Inr (), ?s1)"
    using f by (simp add: toggleComplete_def)
  have f1: "find (\<lambda>a. a_id a = i) (st_assignments ?s1) = Some (toggle t1 a)"
    using f by (simp add: find_toggle)
  have 2: "toggleComplete i t2 ?s1 = (Inr (), ?s2)"
    using f1 by (simp add: toggleComplete_def toggle_def)
  have f2: "find (\<lambda>a. a_id a = i) (st_assignments ?s2) = Some (toggle t2 (toggle t1 a))"
    using f by (simp add: find_toggle del: map_map)
  have ids: "map a_id (st_assignments ?s2) = map a_id (st_assignments s)"
    by (simp add: comp_def toggle_def if_distrib cong: if_cong)
  have flags: "map a_completed (st_assignments ?s2) = map a_completed (st_assignments s)"
    using toggle_twice_completed [of i t2 t1 "st_assignments s"] by simp
  have c1: "map_option a_completed (find (\<lambda>a. a_id a = i) (st_assignments ?s1)) = Some (\<not> a_completed a)"
    using f1 by (simp add: toggle_def)
  have c2: "map_option a_completed (find (\<lambda>a. a_id a = i) (st_assignments ?s2)) = Some (a_completed a)"
    using f2 by (simp add: toggle_def)
  have hist: "st_history ?s2 = st_history s @ [?e1, ?e2]"
    by simp
  show "\<exists>s1 s2 e1 e2.
        toggleComplete i t1 s = (Inr (), s1) \<and> toggleComplete i t2 s1 = (Inr (), s2)
        \<and> map a_completed (st_assignments s2) = map a_completed (st_assignments s)
        \<and> map a_id (st_assignments s2) = map a_id (st_assignments s)
        \<and> map_option a_completed (find (\<lambda>a. a_id a = i) (st_assignments s1)) = Some (\<not> a_completed a)
        \<and> map_option a_completed (find (\<lambda>a. a_id a = i) (st_assignments s2)) = Some (a_completed a)
        \<and> st_history s2 = st_history s @ [e1, e2]
        \<and> h_assignmentId e1 = i \<and> h_field e1 = ''completed''
        \<and> h_previous e1 = BoolValue (a_completed a) \<and> h_new e1 = BoolValue (\<not> a_completed a)
        \<and> h_assignmentId e2 = i \<and> h_field e2 = ''completed''
        \<and> h_previous e2 = BoolValue (\<not> a_completed a) \<and> h_new e2 = BoolValue (a_completed a)
        \<and> st_courses s2 = st_courses s"
    apply (rule exI [of _ ?s1], rule exI [of _ ?s2], rule exI [of _ ?e1], rule exI [of _ ?e2])
    apply (intro conjI)
                   apply (rule 1)
                  apply (rule 2)
                 apply (rule flags)
                apply (rule ids)
               apply (rule c1)
              apply (rule c2)
             apply (rule hist)
            apply simp_all
    done
qed

theorem toggleComplete_twice_witness:
  "find (\<lambda>a. a_id a = 1) (st_assignments demoStore) = Some essayRow
   \<and> (\<exists>s1 s2. toggleComplete 1 (utcTime 2024 1 15 12 0) demoStore = (Inr (), s1)
         \<and> toggleComplete 1 (utcTime 2024 1 15 13 0) s1 = (Inr (), s2)
         \<and> map a_completed (st_assignments s2) = map a_completed (st_assignments demoStore)
         \<and> length (st_history s2) = length (st_history demoStore) + 2)"
proof -
  have h: "find (\<lambda>a. a_id a = 1) (st_assignments demoStore) = Some essayRow"
    by (simp add: demoStore_def essayRow_def)
  from toggleComplete_twice [where i = 1 and s = demoStore and a = essayRow
      and ?t1.0 = "utcTime 2024 1 15 12 0" and ?t2.0 = "utcTime 2024 1 15 13 0", THEN mp, OF h]
  obtain s1 s2 e1 e2 where
    r: "toggleComplete 1 (utcTime 2024 1 15 12 0) demoStore = (Inr (), s1)"
       "toggleComplete 1 (utcTime 2024 1 15 13 0) s1 = (Inr (), s2)"
       "map a_completed (st_assignments s2) = map a_completed (st_assignments demoStore)"
       "st_history s2 = st_history demoStore @ [e1, e2]"
    by blast
  from r(4) have "length (st_history s2) = length (st_history demoStore) + 2"
    by simp
  with h r(1-3) show ?thesis by blast
qed

lemma toggleComplete_example:
  "map a_completed (st_assignments (snd (toggleComplete 1 (utcTime 2024 1 15 12 0) demoStore))) = [True, True]
   \<and> map a_completedAt (st_assignments (snd (toggleComplete 1 (utcTime 2024 1 15 12 0) demoStore)))
       = [Some (utcTime 2024 1 15 12 0), Some (utcTime 2024 1 10 17 0)]
   \<and> map h_id (st_history (snd (toggleComplete 1 (utcTime 2024 1 15 12 0) demoStore))) = [1, 2]
   \<and> toggleComplete 7 (utcTime 2024 1 15 12 0) demoStore = (Inl NotFoundError, demoStore)"
  by code_simp

text \<open>
  C9. If a course with the id is stored, \<open>deleteCourse\<close> succeeds and the new store
  holds the other courses, the assignments of the other courses, and the history
  entries that do not belong to an assignment of the deleted course, each list
  otherwise as it was. If no course has the id, it fails with \<open>NotFoundError\<close> and the
  store is the one it was given.
\<close>

theorem deleteCourse_cascade:
  "((\<exists>c \<in> set (st_courses s). c_id c = i) \<longrightarrow>
      (\<exists>s'. deleteCourse i s = (Inr (), s')
         \<and> st_courses s' = filter (\<lambda>c. c_id c \<noteq> i) (st_courses s)
         \<and> st_assignments s' = filter (\<lambda>a. a_courseId a \<noteq> i) (st_assignments s)
         \<and> st_history s' = filter (\<lambda>e. \<not> (\<exists>a \<in> set (st_assignments s).
               a_courseId a = i \<and> a_id a = h_assignmentId e)) (st_history s)))
   \<and> (\<not> (\<exists>c \<in> set (st_courses s). c_id c = i) \<longrightarrow> deleteCourse i s = (Inl NotFoundError, s))"
  by (auto simp: deleteCourse_def Let_def image_iff intro!: filter_cong)

theorem deleteCourse_cascade_witness:
  "(\<exists>c \<in> set (st_courses demoStore). c_id c = 2)
   \<and> (\<exists>s'. deleteCourse 2 demoStore = (Inr (), s')
         \<and> st_assignments s' = filter (\<lambda>a. a_courseId a \<noteq> 2) (st_assignments demoStore))
   \<and> \<not> (\<exists>c \<in> set (st_courses demoStore). c_id c = 999)
   \<and> deleteCourse 999 demoStore = (Inl NotFoundError, demoStore)"
proof -
  have present: "\<exists>c \<in> set (st_courses demoStore). c_id c = 2"
    by (simp add: demoStore_def)
  have absent: "\<not> (\<exists>c \<in> set (st_courses demoStore). c_id c = 999)"
    by (simp add: demoStore_def)
  from deleteCourse_cascade [of demoStore 2, THEN conjunct1, THEN mp, OF present]
  obtain s' where
    d: "deleteCourse 2 demoStore = (Inr (), s')"
       "st_assignments s' = filter (\<lambda>a. a_courseId a \<noteq> 2) (st_assignments demoStore)"
    by blast
  note n = deleteCourse_cascade [of demoStore 999, THEN conjunct2, THEN mp, OF absent]
  from present d absent n show ?thesis by blast
qed

lemma deleteCourse_example:
  "st_courses (snd (deleteCourse 2 demoStore)) = [hd (st_courses demoStore)]
   \<and> st_assignments (snd (deleteCourse 2 demoStore)) = [essayRow]
   \<and> st_history (snd (deleteCourse 2 demoStore)) = []
   \<and> fst (deleteCourse 2 demoStore) = Inr ()"
  by code_simp

text \<open>The cascade keeps every reference of the store resolved.\<close>

lemma deleteCourse_keeps_references:
  assumes "referencesResolve s" "deleteCourse i s = (r, s')"
  shows "referencesResolve s'"
proof (cases "\<exists>c \<in> set (st_courses s). c_id c = i")
  case False
  with assms show ?thesis by (simp add: deleteCourse_def)
next
  case True
  then have c: "st_courses s' = filter (\<lambda>c. c_id c \<noteq> i) (st_courses s)"
    and a: "st_assignments s' = filter (\<lambda>a. a_courseId a \<noteq> i) (st_assignments s)"
    and h: "st_history s' = filter (\<lambda>e. h_assignmentId e \<notin>
              a_id ` {a \<in> set (st_assignments s). a_courseId a = i}) (st_history s)"
    using assms(2) by (auto simp: deleteCourse_def Let_def)
  have "\<exists>c \<in> set (st_courses s'). c_id c = a_courseId x" if "x \<in> set (st_assignments s')" for x
    using that assms(1) by (fastforce simp: a c referencesResolve_def)
  moreover have "\<exists>x \<in> set (st_assignments s'). a_id x = h_assignmentId e"
    if "e \<in> set (st_history s')" for e
  proof -
    from that have e: "e \<in> set (st_history s)"
      and n: "h_assignmentId e \<notin> a_id ` {a \<in> set (st_assignments s). a_courseId a = i}"
      by (auto simp: h)
    from e assms(1) obtain x where x: "x \<in> set (st_assignments s)" "a_id x = h_assignmentId e"
      by (auto simp: referencesResolve_def)
    with n have "a_courseId x \<noteq> i" by force
    with x show ?thesis by (auto simp: a)
  qed
  ultimately show ?thesis by (simp add: referencesResolve_def)
qed

end
